theory Spec2Isabelle
  imports Complex_Main
begin

section \<open>Face recognition engine: a shallow embedding of python-face-recognition.py\<close>

text \<open>
  The script is glue code around three external libraries: \<^verbatim>\<open>face_recognition\<close> (image
  decoding, face detection, embeddings), scikit-learn's \<^verbatim>\<open>KNeighborsClassifier\<close> and
  \<^verbatim>\<open>pickle\<close>/\<^verbatim>\<open>os\<close>/\<^verbatim>\<open>json\<close>. The libraries and the file system are the environment of
  the program: they are fields of the record \<open>world\<close> below, arbitrary functions that
  may return a value or raise. Everything that the script itself does (loops, branches,
  \<^verbatim>\<open>try\<close>/\<^verbatim>\<open>except\<close>, accumulators, the dictionary of results, the dispatch on the
  command line) is translated function by function.

  A Python call either returns a value or raises an exception, and it may print. Its
  outcome is a pair: \<open>Inl e\<close> (raised \<open>e\<close>) or \<open>Inr v\<close> (returned \<open>v\<close>), and the lines it
  printed. Only exceptions derived from \<^verbatim>\<open>Exception\<close> are modelled (the ones that
  \<^verbatim>\<open>except Exception\<close> catches); \<^verbatim>\<open>print\<close> itself is taken not to fail.
\<close>

subsection \<open>Values\<close>

type_synonym path = string

text \<open>An exception object; the string is what \<^verbatim>\<open>str(e)\<close> and \<^verbatim>\<open>f"{e}"\<close> give.\<close>

datatype exn = Exn string

fun str_exn :: "exn \<Rightarrow> string" where
  "str_exn (Exn msg) = msg"

datatype stream = Stdout | Stderr

type_synonym printed = "(stream \<times> string) list"

text \<open>
  Pixel data, face boxes and embeddings are produced and consumed by the libraries only;
  the script never looks inside them. Distances and the tolerance are floats that the
  script only compares with \<^verbatim>\<open><=\<close>; they are modelled as real numbers.
\<close>

datatype image = Image "nat list"

type_synonym location = "int \<times> int \<times> int \<times> int"

type_synonym encoding = "real list"

text \<open>
  A \<^verbatim>\<open>KNeighborsClassifier\<close>: the constructor argument and the training data that
  \<^verbatim>\<open>fit\<close> stores (a nearest-neighbour classifier keeps its samples; its label set
  \<^verbatim>\<open>classes_\<close> is the set of the labels it was fitted with).
\<close>

record classifier =
  n_neighbors :: nat
  fit_X :: "encoding list"
  fit_y :: "string list"

definition KNeighborsClassifier :: "nat \<Rightarrow> classifier" where
  "KNeighborsClassifier k = \<lparr>n_neighbors = k, fit_X = [], fit_y = []\<rparr>"

definition fit :: "classifier \<Rightarrow> encoding list \<Rightarrow> string list \<Rightarrow> classifier" where
  "fit clf X y = clf\<lparr>fit_X := X, fit_y := y\<rparr>"

definition classes :: "classifier \<Rightarrow> string set" where
  "classes clf = set (fit_y clf)"

text \<open>
  What is at a path where a model file is looked for: a pickle of the object that was
  dumped (\<^verbatim>\<open>self.model\<close>, a classifier or \<^verbatim>\<open>None\<close>), or something that
  \<^verbatim>\<open>open\<close> or \<^verbatim>\<open>pickle.load\<close> fails on with the given exception (a directory, a
  truncated or foreign file). A path that is not in the map does not exist. A file that
  holds the pickle of an object of another type is not modelled: the field \<open>model\<close> of
  an engine is \<^verbatim>\<open>None\<close> or a classifier, for which the test \<^verbatim>\<open>not self.model\<close> at
  the head of \<^verbatim>\<open>recognize\<close> does not raise.
\<close>

datatype stored = Pickled "classifier option" | Unreadable exn

type_synonym disk = "path \<rightharpoonup> stored"

datatype json = JStr string | JList "json list" | JObj "(string \<times> json) list"

subsection \<open>The environment\<close>

record world =
  isdir :: "path \<Rightarrow> bool"
  listdir :: "path \<Rightarrow> exn + string list"
  load_image_file :: "path \<Rightarrow> exn + image"
  face_locations :: "image \<Rightarrow> exn + location list"
  face_encodings :: "image \<Rightarrow> location list option \<Rightarrow> exn + encoding list"
  kneighbors :: "classifier \<Rightarrow> encoding \<Rightarrow> exn + real"
  predict :: "classifier \<Rightarrow> encoding \<Rightarrow> exn + string"
  open_wb :: "path \<Rightarrow> exn option"
  json_dumps :: "json \<Rightarrow> string"
  help_text :: string

text \<open>
  \<^item> \<open>listdir\<close> is \<^verbatim>\<open>os.listdir\<close>: the names in a directory, in the order the
    operating system gives them, or an exception (no such directory, not a directory,
    no permission).
  \<^item> \<open>face_encodings w img None\<close> is \<^verbatim>\<open>face_recognition.face_encodings(image)\<close>,
    \<open>face_encodings w img (Some locs)\<close> the call with known face locations.
  \<^item> \<open>kneighbors w clf enc\<close> is
    \<^verbatim>\<open>clf.kneighbors([enc], n_neighbors=1)[0][0][0]\<close>, the distance to the nearest
    stored sample; \<open>predict w clf enc\<close> is \<^verbatim>\<open>clf.predict([enc])[0]\<close>.
  \<^item> \<open>open_wb w p\<close> is the exception that \<^verbatim>\<open>open(p, 'wb')\<close> raises, if it does.
\<close>

subsection \<open>Paths and extensions\<close>

text \<open>\<^verbatim>\<open>os.path.join\<close> with two arguments (posixpath).\<close>

definition join :: "path \<Rightarrow> string \<Rightarrow> path" where
  "join a b =
     (if take 1 b = ''/'' then b
      else if a = [] \<or> last a = CHR ''/'' then a @ b
      else a @ ''/'' @ b)"

definition lower_char :: "char \<Rightarrow> char" where
  "lower_char c =
     (let n = (of_char c :: nat) in if 65 \<le> n \<and> n \<le> 90 then char_of (n + 32) else c)"

definition lower :: "string \<Rightarrow> string" where
  "lower s = map lower_char s"

definition endswith :: "string \<Rightarrow> string \<Rightarrow> bool" where
  "endswith s suffix = (length suffix \<le> length s \<and> drop (length s - length suffix) s = suffix)"

text \<open>\<^verbatim>\<open>p.lower().endswith(('.png', '.jpg', '.jpeg'))\<close>\<close>

definition is_image_path :: "path \<Rightarrow> bool" where
  "is_image_path p =
     (endswith (lower p) ''.png'' \<or> endswith (lower p) ''.jpg'' \<or> endswith (lower p) ''.jpeg'')"

text \<open>\<^verbatim>\<open>str(n)\<close> for a count.\<close>

fun str_nat :: "nat \<Rightarrow> string" where
  "str_nat n =
     (if n < 10 then [char_of (48 + n)]
      else str_nat (n div 10) @ [char_of (48 + n mod 10)])"

subsection \<open>The engine: constructor, load and save\<close>

record engine =
  model_path :: path
  model :: "classifier option"

text \<open>
  The body of the \<^verbatim>\<open>try\<close> in \<^verbatim>\<open>load_model\<close>:
  \<^verbatim>\<open>with open(self.model_path, 'rb') as f: self.model = pickle.load(f)\<close>
\<close>

definition open_rb_pickle_load :: "disk \<Rightarrow> path \<Rightarrow> exn + classifier option" where
  "open_rb_pickle_load d p =
     (case d p of
        None \<Rightarrow> Inl (Exn ''No such file or directory'')
      | Some (Unreadable e) \<Rightarrow> Inl e
      | Some (Pickled obj) \<Rightarrow> Inr obj)"

text \<open>\<^verbatim>\<open>os.path.exists\<close>\<close>

definition path_exists :: "disk \<Rightarrow> path \<Rightarrow> bool" where
  "path_exists d p = (d p \<noteq> None)"

definition load_model :: "disk \<Rightarrow> engine \<Rightarrow> (exn + bool) \<times> engine \<times> printed" where
  "load_model d self =
     (if path_exists d (model_path self) then
        (case open_rb_pickle_load d (model_path self) of
           Inr obj \<Rightarrow> (Inr True, self\<lparr>model := obj\<rparr>, [])
         | Inl e \<Rightarrow> (Inr False, self, [(Stderr, ''Error loading model: '' @ str_exn e)]))
      else (Inr False, self, []))"

text \<open>\<^verbatim>\<open>FacialRecognitionEngine(model_path)\<close>, that is \<^verbatim>\<open>__init__\<close>.\<close>

definition FacialRecognitionEngine :: "disk \<Rightarrow> path \<Rightarrow> (exn + engine) \<times> printed" where
  "FacialRecognitionEngine d p =
     (case load_model d \<lparr>model_path = p, model = None\<rparr> of
        (Inl e, self, out) \<Rightarrow> (Inl e, out)
      | (Inr loaded, self, out) \<Rightarrow> (Inr self, out))"

text \<open>
  \<^verbatim>\<open>with open(self.model_path, 'wb') as f: pickle.dump(self.model, f)\<close>: no
  \<^verbatim>\<open>try\<close>, so a failing \<^verbatim>\<open>open\<close> propagates.
\<close>

definition save_model :: "world \<Rightarrow> disk \<Rightarrow> engine \<Rightarrow> (exn + unit) \<times> disk" where
  "save_model w d self =
     (case open_wb w (model_path self) of
        Some e \<Rightarrow> (Inl e, d)
      | None \<Rightarrow> (Inr (), d(model_path self \<mapsto> Pickled (model self))))"

subsection \<open>Training\<close>

text \<open>
  The accumulators of \<^verbatim>\<open>train\<close>: \<^verbatim>\<open>face_encodings\<close>, \<^verbatim>\<open>face_names\<close>, and what
  has been printed.
\<close>

type_synonym train_acc = "encoding list \<times> string list \<times> printed"

text \<open>The first two statements of the \<^verbatim>\<open>try\<close> in the inner loop.\<close>

definition train_encodings :: "world \<Rightarrow> path \<Rightarrow> exn + encoding list" where
  "train_encodings w image_path =
     (case load_image_file w image_path of
        Inl e \<Rightarrow> Inl e
      | Inr img \<Rightarrow> face_encodings w img None)"

text \<open>The inner loop: \<^verbatim>\<open>for image_file in os.listdir(person_dir)\<close>, over the listing.\<close>

fun train_images :: "world \<Rightarrow> string \<Rightarrow> path \<Rightarrow> string list \<Rightarrow> train_acc \<Rightarrow> train_acc" where
  "train_images w person_name person_dir [] acc = acc"
| "train_images w person_name person_dir (image_file # rest) (encs, names, out) =
     (let image_path = join person_dir image_file in
      if \<not> is_image_path image_path then
        train_images w person_name person_dir rest (encs, names, out)
      else
        (case train_encodings w image_path of
           Inr (e # others) \<Rightarrow>
             train_images w person_name person_dir rest
               (encs @ [e], names @ [person_name],
                out @ [(Stdout, ''Processed '' @ image_path @ '' - Found face of '' @ person_name)])
         | Inr [] \<Rightarrow>
             train_images w person_name person_dir rest
               (encs, names, out @ [(Stderr, ''Warning: No face found in '' @ image_path)])
         | Inl e \<Rightarrow>
             train_images w person_name person_dir rest
               (encs, names,
                out @ [(Stderr, ''Error processing '' @ image_path @ '': '' @ str_exn e)])))"

text \<open>
  The outer loop: \<^verbatim>\<open>for person_name in os.listdir(training_dir)\<close>, over the listing.
  The inner \<^verbatim>\<open>os.listdir(person_dir)\<close> is outside the \<^verbatim>\<open>try\<close>.
\<close>

fun train_persons ::
  "world \<Rightarrow> path \<Rightarrow> string list \<Rightarrow> train_acc \<Rightarrow> (exn + encoding list \<times> string list) \<times> printed"
where
  "train_persons w training_dir [] (encs, names, out) = (Inr (encs, names), out)"
| "train_persons w training_dir (person_name # rest) (encs, names, out) =
     (let person_dir = join training_dir person_name in
      if \<not> isdir w person_dir then train_persons w training_dir rest (encs, names, out)
      else
        (case listdir w person_dir of
           Inl e \<Rightarrow> (Inl e, out)
         | Inr files \<Rightarrow>
             train_persons w training_dir rest
               (train_images w person_name person_dir files (encs, names, out))))"

definition train :: "world \<Rightarrow> disk \<Rightarrow> engine \<Rightarrow> path \<Rightarrow> (exn + nat) \<times> engine \<times> disk \<times> printed" where
  "train w d self training_dir =
     (case listdir w training_dir of
        Inl e \<Rightarrow> (Inl e, self, d, [])
      | Inr persons \<Rightarrow>
          (case train_persons w training_dir persons ([], [], []) of
             (Inl e, out) \<Rightarrow> (Inl e, self, d, out)
           | (Inr (encs, names), out) \<Rightarrow>
               if length encs > 0 then
                 (let self' = self\<lparr>model :=
                        Some (fit (KNeighborsClassifier (min 5 (length encs))) encs names)\<rparr>
                  in case save_model w d self' of
                       (Inl e, d') \<Rightarrow> (Inl e, self', d', out)
                     | (Inr u, d') \<Rightarrow> (Inr (length encs), self', d', out))
               else
                 (Inr 0, self, d, out @ [(Stderr, ''No face encodings found! Training failed.'')])))"

subsection \<open>Recognition\<close>

text \<open>
  The loop \<^verbatim>\<open>for face_encoding in face_encodings\<close> with the list
  \<^verbatim>\<open>people_found\<close> as accumulator. An exception of \<^verbatim>\<open>kneighbors\<close> or
  \<^verbatim>\<open>predict\<close> leaves the loop.
\<close>

fun recognize_faces ::
  "world \<Rightarrow> classifier \<Rightarrow> real \<Rightarrow> encoding list \<Rightarrow> string list \<Rightarrow> exn + string list"
where
  "recognize_faces w clf tolerance [] people_found = Inr people_found"
| "recognize_faces w clf tolerance (face_encoding # rest) people_found =
     (case kneighbors w clf face_encoding of
        Inl e \<Rightarrow> Inl e
      | Inr closest \<Rightarrow>
          if closest \<le> tolerance then
            (case predict w clf face_encoding of
               Inl e \<Rightarrow> Inl e
             | Inr person_name \<Rightarrow>
                 recognize_faces w clf tolerance rest
                   (if person_name \<notin> set people_found then people_found @ [person_name]
                    else people_found))
          else recognize_faces w clf tolerance rest people_found)"

text \<open>The body of the \<^verbatim>\<open>try\<close> in \<^verbatim>\<open>recognize\<close>.\<close>

definition recognize_try :: "world \<Rightarrow> classifier \<Rightarrow> path \<Rightarrow> real \<Rightarrow> exn + string list" where
  "recognize_try w clf image_path tolerance =
     (case load_image_file w image_path of
        Inl e \<Rightarrow> Inl e
      | Inr img \<Rightarrow>
          (case face_locations w img of
             Inl e \<Rightarrow> Inl e
           | Inr locs \<Rightarrow>
               (case face_encodings w img (Some locs) of
                  Inl e \<Rightarrow> Inl e
                | Inr encs \<Rightarrow> recognize_faces w clf tolerance encs [])))"

definition recognize :: "world \<Rightarrow> engine \<Rightarrow> path \<Rightarrow> real \<Rightarrow> (exn + string list) \<times> printed" where
  "recognize w self image_path tolerance =
     (case model self of
        None \<Rightarrow>
          (Inr [], [(Stderr, ''No trained model found! Please train the model first.'')])
      | Some clf \<Rightarrow>
          (case recognize_try w clf image_path tolerance of
             Inr people_found \<Rightarrow> (Inr people_found, [])
           | Inl e \<Rightarrow>
               (Inr [],
                [(Stderr, ''Error recognizing faces in '' @ image_path @ '': '' @ str_exn e)])))"

text \<open>The default of the parameter \<^verbatim>\<open>tolerance=0.6\<close>.\<close>

definition default_tolerance :: real where
  "default_tolerance = 6 / 10"

subsection \<open>Batch processing\<close>

text \<open>
  A value of the dictionary \<^verbatim>\<open>results\<close>: the list that \<^verbatim>\<open>recognize\<close> returned, or
  \<^verbatim>\<open>{"error": str(e)}\<close>. The dictionary keeps insertion order; storing under a key
  that is present replaces the value in place.
\<close>

datatype entry = People "string list" | Error_entry string

type_synonym results = "(string \<times> entry) list"

fun dict_set :: "string \<Rightarrow> entry \<Rightarrow> results \<Rightarrow> results" where
  "dict_set k v [] = [(k, v)]"
| "dict_set k v ((k', v') # rest) =
     (if k' = k then (k, v) # rest else (k', v') # dict_set k v rest)"

text \<open>
  \<^verbatim>\<open>process_directory\<close> calls \<^verbatim>\<open>engine.recognize(file_path)\<close> on whatever object it
  is given; the bound method is the parameter \<open>engine_recognize\<close>.
\<close>

type_synonym recognizer = "path \<Rightarrow> (exn + string list) \<times> printed"

fun process_files ::
  "recognizer \<Rightarrow> path \<Rightarrow> string list \<Rightarrow> results \<times> printed \<Rightarrow> results \<times> printed"
where
  "process_files engine_recognize directory_path [] acc = acc"
| "process_files engine_recognize directory_path (filename # rest) (results, out) =
     (let file_path = join directory_path filename in
      if \<not> is_image_path file_path then
        process_files engine_recognize directory_path rest (results, out)
      else
        (case engine_recognize file_path of
           (Inr people, pr) \<Rightarrow>
             process_files engine_recognize directory_path rest
               (dict_set filename (People people) results, out @ pr)
         | (Inl e, pr) \<Rightarrow>
             process_files engine_recognize directory_path rest
               (dict_set filename (Error_entry (str_exn e)) results,
                out @ pr @ [(Stderr, ''Error processing '' @ file_path @ '': '' @ str_exn e)])))"

fun json_of_entry :: "entry \<Rightarrow> json" where
  "json_of_entry (People people) = JList (map JStr people)"
| "json_of_entry (Error_entry msg) = JObj [(''error'', JStr msg)]"

definition json_of_results :: "results \<Rightarrow> json" where
  "json_of_results rs = JObj (map (\<lambda>(k, v). (k, json_of_entry v)) rs)"

datatype batch = Json_text string | Native results

definition process_directory ::
  "world \<Rightarrow> recognizer \<Rightarrow> path \<Rightarrow> bool \<Rightarrow> (exn + batch) \<times> printed"
where
  "process_directory w engine_recognize directory_path json_output =
     (case listdir w directory_path of
        Inl e \<Rightarrow> (Inl e, [])
      | Inr names \<Rightarrow>
          (case process_files engine_recognize directory_path names ([], []) of
             (results, out) \<Rightarrow>
               (Inr (if json_output then Json_text (json_dumps w (json_of_results results))
                     else Native results), out)))"

text \<open>
  The method \<^verbatim>\<open>engine.recognize\<close> of a \<^verbatim>\<open>FacialRecognitionEngine\<close>, called with the
  path only as \<^verbatim>\<open>process_directory\<close> does: the tolerance is the default.
\<close>

definition bound_recognize :: "world \<Rightarrow> engine \<Rightarrow> recognizer" where
  "bound_recognize w self = (\<lambda>file_path. recognize w self file_path default_tolerance)"

subsection \<open>The command line\<close>

text \<open>
  The namespace that \<^verbatim>\<open>parser.parse_args()\<close> returns. A flag that is not given is
  \<^verbatim>\<open>None\<close>; \<^verbatim>\<open>if args.train:\<close> is also false for the empty string.
\<close>

record args =
  arg_train :: "string option"
  arg_recognize :: "string option"
  arg_process_dir :: "string option"
  arg_model :: string
  arg_tolerance :: real

definition default_args :: args where
  "default_args =
     \<lparr>arg_train = None, arg_recognize = None, arg_process_dir = None,
      arg_model = ''face_model.pkl'', arg_tolerance = 6 / 10\<rparr>"

fun truthy :: "string option \<Rightarrow> bool" where
  "truthy None = False"
| "truthy (Some s) = (s \<noteq> [])"

definition main :: "world \<Rightarrow> disk \<Rightarrow> args \<Rightarrow> (exn + unit) \<times> disk \<times> printed" where
  "main w d a =
     (case FacialRecognitionEngine d (arg_model a) of
        (Inl e, out0) \<Rightarrow> (Inl e, d, out0)
      | (Inr engine, out0) \<Rightarrow>
          if truthy (arg_train a) then
            (case train w d engine (the (arg_train a)) of
               (Inl e, engine', d', out) \<Rightarrow> (Inl e, d', out0 @ out)
             | (Inr count, engine', d', out) \<Rightarrow>
                 (Inr (), d',
                  out0 @ out @
                  [(Stdout, ''Training complete! Processed '' @ str_nat count @ '' face(s)'')]))
          else if truthy (arg_recognize a) then
            (case recognize w engine (the (arg_recognize a)) (arg_tolerance a) of
               (Inl e, out) \<Rightarrow> (Inl e, d, out0 @ out)
             | (Inr people, out) \<Rightarrow>
                 (Inr (), d, out0 @ out @ [(Stdout, json_dumps w (JList (map JStr people)))]))
          else if truthy (arg_process_dir a) then
            (case process_directory w (bound_recognize w engine) (the (arg_process_dir a)) True of
               (Inl e, out) \<Rightarrow> (Inl e, d, out0 @ out)
             | (Inr (Json_text s), out) \<Rightarrow> (Inr (), d, out0 @ out @ [(Stdout, s)])
             | (Inr (Native rs), out) \<Rightarrow>
                 (Inr (), d, out0 @ out @ [(Stdout, json_dumps w (json_of_results rs))]))
          else (Inr (), d, out0 @ [(Stdout, help_text w)]))"

subsection \<open>Notions used to state the properties\<close>

text \<open>
  The order of first occurrence: every element once, at the place where it is first met.
\<close>

fun first_occurrences :: "'a list \<Rightarrow> 'a list" where
  "first_occurrences [] = []"
| "first_occurrences (x # xs) = x # filter (\<lambda>y. y \<noteq> x) (first_occurrences xs)"

text \<open>
  The entry that the batch loop stores for a file, read off the outcome of
  \<^verbatim>\<open>engine.recognize(file_path)\<close>.
\<close>

definition entry_for :: "recognizer \<Rightarrow> path \<Rightarrow> entry" where
  "entry_for engine_recognize file_path =
     (case fst (engine_recognize file_path) of
        Inr people \<Rightarrow> People people
      | Inl e \<Rightarrow> Error_entry (str_exn e))"

fun is_error_entry :: "entry \<Rightarrow> bool" where
  "is_error_entry (Error_entry msg) = True"
| "is_error_entry (People people) = False"

subsection \<open>A concrete environment\<close>

text \<open>
  A small file system and library behaviour on which the functions above are run:
  a training directory \<^verbatim>\<open>faces\<close> with two persons, a training directory
  \<^verbatim>\<open>nofaces\<close> whose images give no embedding, and a directory \<^verbatim>\<open>photos\<close> with two
  good images, one corrupt image and a text file. Embeddings are one number long; the
  nearest-neighbour search and the prediction are given as tables.
\<close>

definition ex_listdir :: "path \<Rightarrow> exn + string list" where
  "ex_listdir p =
     (if p = ''faces'' then Inr [''alice'', ''README.txt'', ''bob'']
      else if p = ''faces/alice'' then Inr [''a1.jpg'']
      else if p = ''faces/bob'' then Inr [''notes.txt'', ''b1.JPEG'']
      else if p = ''nofaces'' then Inr [''carol'']
      else if p = ''nofaces/carol'' then Inr [''c1.jpg'', ''c2.png'']
      else if p = ''photos'' then Inr [''a.jpg'', ''bad.jpg'', ''notes.txt'', ''c.PNG'']
      else Inl (Exn ''No such file or directory''))"

definition ex_isdir :: "path \<Rightarrow> bool" where
  "ex_isdir p =
     (p = ''faces'' \<or> p = ''faces/alice'' \<or> p = ''faces/bob'' \<or> p = ''nofaces'' \<or>
      p = ''nofaces/carol'' \<or> p = ''photos'')"

definition ex_load_image_file :: "path \<Rightarrow> exn + image" where
  "ex_load_image_file p =
     (if p = ''faces/alice/a1.jpg'' then Inr (Image [10])
      else if p = ''faces/bob/b1.JPEG'' then Inr (Image [11])
      else if p = ''nofaces/carol/c2.png'' then Inr (Image [12])
      else if p = ''photos/a.jpg'' then Inr (Image [1])
      else if p = ''photos/c.PNG'' then Inr (Image [3])
      else if p = ''group.jpg'' then Inr (Image [4])
      else Inl (Exn ''cannot identify image file''))"

definition ex_encodings :: "image \<Rightarrow> encoding list" where
  "ex_encodings img =
     (if img = Image [10] then [[1]]
      else if img = Image [11] then [[2], [7]]
      else if img = Image [1] then [[5]]
      else if img = Image [3] then [[8], [3], [9], [4]]
      else if img = Image [4] then [[3], [6]]
      else [])"

definition ex_face_locations :: "image \<Rightarrow> exn + location list" where
  "ex_face_locations img = Inr (map (\<lambda>enc. (0, 10, 10, 0)) (ex_encodings img))"

definition ex_face_encodings :: "image \<Rightarrow> location list option \<Rightarrow> exn + encoding list" where
  "ex_face_encodings img locs = Inr (ex_encodings img)"

definition ex_kneighbors :: "classifier \<Rightarrow> encoding \<Rightarrow> exn + real" where
  "ex_kneighbors clf enc =
     (if enc = [1] \<or> enc = [2] then Inr 0
      else if enc = [3] then Inr (2 / 10)
      else if enc = [5] then Inr (5 / 10)
      else if enc = [8] \<or> enc = [9] then Inr (6 / 10)
      else if enc = [4] then Inr (9 / 10)
      else Inl (Exn ''Input contains NaN''))"

definition ex_predict :: "classifier \<Rightarrow> encoding \<Rightarrow> exn + string" where
  "ex_predict clf enc =
     (if enc = [1] \<or> enc = [3] \<or> enc = [5] then Inr ''alice''
      else if enc = [2] \<or> enc = [4] \<or> enc = [8] \<or> enc = [9] then Inr ''bob''
      else Inl (Exn ''Input contains NaN''))"

text \<open>A rendering of JSON values for the concrete environment (no escapes).\<close>

fun ex_commas :: "string list \<Rightarrow> string" where
  "ex_commas [] = []"
| "ex_commas [s] = s"
| "ex_commas (s # t # rest) = s @ '', '' @ ex_commas (t # rest)"

fun ex_json_dumps :: "json \<Rightarrow> string" where
  "ex_json_dumps (JStr s) = [CHR 0x22] @ s @ [CHR 0x22]"
| "ex_json_dumps (JList js) = ''['' @ ex_commas (map ex_json_dumps js) @ '']''"
| "ex_json_dumps (JObj kvs) =
     ''{'' @ ex_commas (map (\<lambda>(k, v). [CHR 0x22] @ k @ [CHR 0x22] @ '': '' @ ex_json_dumps v) kvs)
     @ ''}''"

definition ex_world :: world where
  "ex_world =
     \<lparr>isdir = ex_isdir, listdir = ex_listdir, load_image_file = ex_load_image_file,
      face_locations = ex_face_locations, face_encodings = ex_face_encodings,
      kneighbors = ex_kneighbors, predict = ex_predict,
      open_wb = (\<lambda>p. if p = ''/readonly/model.pkl'' then Some (Exn ''Permission denied'')
                      else None),
      json_dumps = ex_json_dumps, help_text = ''usage''\<rparr>"

definition ex_clf :: classifier where
  "ex_clf = \<lparr>n_neighbors = 2, fit_X = [[1], [2]], fit_y = [''alice'', ''bob'']\<rparr>"

definition ex_disk :: disk where
  "ex_disk =
     [''face_model.pkl'' \<mapsto> Pickled (Some ex_clf),
      ''broken.pkl'' \<mapsto> Unreadable (Exn ''invalid load key'')]"

definition ex_engine :: engine where
  "ex_engine = \<lparr>model_path = ''face_model.pkl'', model = Some ex_clf\<rparr>"

section \<open>Properties of recognition\<close>

lemma recognize_faces_distinct:
  "recognize_faces w clf tol encs acc = Inr res \<Longrightarrow> distinct acc \<Longrightarrow> distinct res"
  by (induction encs arbitrary: acc) (auto split: sum.splits if_splits)

lemma recognize_faces_keeps:
  "recognize_faces w clf tol encs acc = Inr res \<Longrightarrow> set acc \<subseteq> set res"
  by (induction encs arbitrary: acc) (fastforce split: sum.splits if_splits)+

lemma recognize_faces_match:
  "recognize_faces w clf tol encs acc = Inr res \<Longrightarrow> enc \<in> set encs \<Longrightarrow>
   kneighbors w clf enc = Inr d \<Longrightarrow> d \<le> tol \<Longrightarrow>
   \<exists>name. predict w clf enc = Inr name \<and> name \<in> set res"
proof (induction encs arbitrary: acc)
  case Nil
  then show ?case by simp
next
  case (Cons a encs)
  show ?case
  proof (cases "enc = a")
    case True
    with Cons.prems obtain name acc' where
      p: "predict w clf enc = Inr name" and
      r: "recognize_faces w clf tol encs acc' = Inr res" and
      m: "name \<in> set acc'"
      by (auto split: sum.splits if_splits)
    from recognize_faces_keeps [OF r] m p show ?thesis by auto
  next
    case False
    with Cons.prems obtain acc' where "recognize_faces w clf tol encs acc' = Inr res"
      by (auto split: sum.splits if_splits)
    with Cons.IH Cons.prems False show ?thesis by auto
  qed
qed

lemma recognize_faces_append:
  "recognize_faces w clf tol (xs @ ys) acc =
     (case recognize_faces w clf tol xs acc of
        Inl e \<Rightarrow> Inl e
      | Inr acc' \<Rightarrow> recognize_faces w clf tol ys acc')"
  by (induction xs arbitrary: acc) (auto split: sum.splits)

lemma set_first_occurrences: "set (first_occurrences xs) = set xs"
  by (induction xs) auto

lemma distinct_first_occurrences: "distinct (first_occurrences xs)"
  by (induction xs) (auto simp: set_first_occurrences)

lemma first_occurrences_snoc:
  "first_occurrences (xs @ [x]) =
     (if x \<in> set xs then first_occurrences xs else first_occurrences xs @ [x])"
  by (induction xs) (auto simp: set_first_occurrences)

lemma recognize_faces_first_occurrences:
  assumes "\<forall>enc\<in>set encs. kneighbors w clf enc = Inr (distance_of enc)"
    and "\<forall>enc\<in>set encs. distance_of enc \<le> tol \<longrightarrow> predict w clf enc = Inr (label_of enc)"
  shows "recognize_faces w clf tol encs acc =
    Inr (acc @ filter (\<lambda>n. n \<notin> set acc)
      (first_occurrences (map label_of (filter (\<lambda>enc. distance_of enc \<le> tol) encs))))"
  using assms
proof (induction encs arbitrary: acc)
  case Nil
  then show ?case by simp
next
  case (Cons a encs)
  then show ?case
    by (auto simp: filter_filter conj_commute intro!: filter_cong)
qed

lemma distinct_count_once:
  "distinct xs \<Longrightarrow> x \<in> set xs \<Longrightarrow> count_list xs x = 1"
  by (induction xs) auto

lemma distinct_count_le: "distinct xs \<Longrightarrow> count_list xs x \<le> 1"
  by (induction xs) auto

lemma recognize_faces_total:
  assumes "\<forall>enc\<in>set encs. \<exists>d. kneighbors w clf enc = Inr d \<and>
             (d \<le> tol \<longrightarrow> (\<exists>n. predict w clf enc = Inr n))"
  shows "\<exists>res. recognize_faces w clf tol encs acc = Inr res"
  using assms by (induction encs arbitrary: acc) (auto split: sum.splits)

lemma recognize_returns_list:
  "\<exists>people. fst (recognize w self p tol) = Inr people \<and> distinct people"
proof (cases "model self")
  case None
  then show ?thesis by (simp add: recognize_def)
next
  case (Some clf)
  show ?thesis
  proof (cases "recognize_try w clf p tol")
    case (Inl e)
    with Some show ?thesis by (simp add: recognize_def)
  next
    case (Inr people)
    then have "distinct people"
      by (auto simp: recognize_try_def split: sum.splits dest: recognize_faces_distinct)
    with Some Inr show ?thesis by (simp add: recognize_def)
  qed
qed

text \<open>
  Claim C3. With a classifier loaded and an image whose faces are all classified without
  an exception, a face whose nearest-neighbour distance is exactly the tolerance is a
  match (the test is \<open>\<le>\<close>): its predicted label is in the list that \<open>recognize\<close> returns.
\<close>

theorem recognize_boundary_is_match:
  assumes "model self = Some clf"
    and "load_image_file w p = Inr img"
    and "face_locations w img = Inr locs"
    and "face_encodings w img (Some locs) = Inr encs"
    and "\<forall>e\<in>set encs. kneighbors w clf e = Inr (distance_of e)"
    and "\<forall>e\<in>set encs. distance_of e \<le> tolerance \<longrightarrow> predict w clf e = Inr (label_of e)"
    and "enc \<in> set encs"
    and "distance_of enc = tolerance"
  shows "\<exists>people. fst (recognize w self p tolerance) = Inr people \<and> label_of enc \<in> set people"
proof -
  from assms(5,6) have "\<forall>e\<in>set encs. \<exists>d. kneighbors w clf e = Inr d \<and>
      (d \<le> tolerance \<longrightarrow> (\<exists>n. predict w clf e = Inr n))"
    by blast
  from recognize_faces_total [OF this] obtain people
    where r: "recognize_faces w clf tolerance encs [] = Inr people" by blast
  from assms(5,7,8) have k: "kneighbors w clf enc = Inr tolerance" by auto
  from recognize_faces_match [OF r assms(7) k] assms(6,7,8)
  have "label_of enc \<in> set people" by auto
  moreover from r assms(1-4) have "fst (recognize w self p tolerance) = Inr people"
    by (simp add: recognize_def recognize_try_def)
  ultimately show ?thesis by blast
qed

lemma constructor_untrained:
  assumes "d p = None \<or> d p = Some (Unreadable e)"
  shows "\<exists>out. FacialRecognitionEngine d p = (Inr \<lparr>model_path = p, model = None\<rparr>, out)"
  using assms
  by (auto simp: FacialRecognitionEngine_def load_model_def path_exists_def
      open_rb_pickle_load_def)

text \<open>
  Claim C4. Without a classifier (\<open>model\<close> is \<open>None\<close>), \<open>recognize\<close> returns the empty
  list for every path and tolerance; it does not raise, and the only signal is one line
  on stderr. This is the state of an engine constructed when no model file exists or
  when loading it fails.
\<close>

theorem recognize_without_model:
  "(model self = None \<longrightarrow>
      recognize w self image_path tolerance =
        (Inr [], [(Stderr, ''No trained model found! Please train the model first.'')])) \<and>
   (d p = None \<or> d p = Some (Unreadable e) \<longrightarrow>
      (\<exists>engine out. FacialRecognitionEngine d p = (Inr engine, out) \<and>
         recognize w engine image_path tolerance =
           (Inr [], [(Stderr, ''No trained model found! Please train the model first.'')])))"
proof (intro conjI impI)
  assume "model self = None"
  then show "recognize w self image_path tolerance =
      (Inr [], [(Stderr, ''No trained model found! Please train the model first.'')])"
    by (simp add: recognize_def)
next
  assume "d p = None \<or> d p = Some (Unreadable e)"
  with constructor_untrained [of d p e] obtain out where
    "FacialRecognitionEngine d p = (Inr \<lparr>model_path = p, model = None\<rparr>, out)" by blast
  moreover have "recognize w \<lparr>model_path = p, model = None\<rparr> image_path tolerance =
      (Inr [], [(Stderr, ''No trained model found! Please train the model first.'')])"
    by (simp add: recognize_def)
  ultimately show "\<exists>engine out. FacialRecognitionEngine d p = (Inr engine, out) \<and>
      recognize w engine image_path tolerance =
        (Inr [], [(Stderr, ''No trained model found! Please train the model first.'')])"
    by blast
qed

text \<open>
  Claim C7. \<open>recognize\<close> always returns a list, and no label is in it twice. When the
  image is decoded and every face is classified without an exception, the label of a face
  that matches is in the list exactly once, however many other faces match the same label.
\<close>

theorem recognize_label_once:
  "\<exists>people. fst (recognize w self image_path tolerance) = Inr people \<and> distinct people \<and>
     (\<forall>name. count_list people name \<le> 1) \<and>
     (model self = Some clf \<and> load_image_file w image_path = Inr img \<and>
      face_locations w img = Inr locs \<and> face_encodings w img (Some locs) = Inr encs \<and>
      (\<forall>e\<in>set encs. kneighbors w clf e = Inr (distance_of e)) \<and>
      (\<forall>e\<in>set encs. distance_of e \<le> tolerance \<longrightarrow> predict w clf e = Inr (label_of e)) \<and>
      enc \<in> set encs \<and> distance_of enc \<le> tolerance
      \<longrightarrow> count_list people (label_of enc) = 1)"
proof -
  from recognize_returns_list obtain people
    where p: "fst (recognize w self image_path tolerance) = Inr people" "distinct people"
    by blast
  from p(2) have a: "\<forall>name. count_list people name \<le> 1"
    by (blast intro: distinct_count_le)
  have b: "model self = Some clf \<and> load_image_file w image_path = Inr img \<and>
      face_locations w img = Inr locs \<and> face_encodings w img (Some locs) = Inr encs \<and>
      (\<forall>e\<in>set encs. kneighbors w clf e = Inr (distance_of e)) \<and>
      (\<forall>e\<in>set encs. distance_of e \<le> tolerance \<longrightarrow> predict w clf e = Inr (label_of e)) \<and>
      enc \<in> set encs \<and> distance_of enc \<le> tolerance
      \<longrightarrow> count_list people (label_of enc) = 1"
  proof (intro impI, elim conjE)
    assume h: "model self = Some clf" "load_image_file w image_path = Inr img"
      "face_locations w img = Inr locs" "face_encodings w img (Some locs) = Inr encs"
      and k: "\<forall>e\<in>set encs. kneighbors w clf e = Inr (distance_of e)"
      and l: "\<forall>e\<in>set encs. distance_of e \<le> tolerance \<longrightarrow> predict w clf e = Inr (label_of e)"
      and m: "enc \<in> set encs" "distance_of enc \<le> tolerance"
    from h recognize_faces_first_occurrences [OF k l, of "[]"]
    have "fst (recognize w self image_path tolerance) =
        Inr (first_occurrences (map label_of (filter (\<lambda>e. distance_of e \<le> tolerance) encs)))"
      by (simp add: recognize_def recognize_try_def)
    with p(1) have "people =
        first_occurrences (map label_of (filter (\<lambda>e. distance_of e \<le> tolerance) encs))"
      by simp
    then have "set people = label_of ` {e \<in> set encs. distance_of e \<le> tolerance}"
      by (simp add: set_first_occurrences)
    with m have "label_of enc \<in> set people" by auto
    with p(2) show "count_list people (label_of enc) = 1" by (rule distinct_count_once)
  qed
  from p a b show ?thesis by blast
qed

text \<open>
  Claim C8. If decoding, face detection or encoding raises, or the classification of the
  face at some index \<open>i\<close> raises (in \<open>kneighbors\<close>, or in \<open>predict\<close> after a match) when
  the faces before it have been processed and have given the labels \<open>found\<close>, then
  \<open>recognize\<close> returns the empty list, not \<open>found\<close>, and logs the exception.
\<close>

theorem recognize_exception_gives_empty:
  assumes "model self = Some clf"
    and "load_image_file w p = Inl e \<or>
         (load_image_file w p = Inr img \<and> face_locations w img = Inl e) \<or>
         (load_image_file w p = Inr img \<and> face_locations w img = Inr locs \<and>
          face_encodings w img (Some locs) = Inl e) \<or>
         (load_image_file w p = Inr img \<and> face_locations w img = Inr locs \<and>
          face_encodings w img (Some locs) = Inr encs \<and> i < length encs \<and>
          recognize_faces w clf tol (take i encs) [] = Inr found \<and>
          (kneighbors w clf (encs ! i) = Inl e \<or>
           (kneighbors w clf (encs ! i) = Inr d \<and> d \<le> tol \<and>
            predict w clf (encs ! i) = Inl e)))"
  shows "recognize w self p tol =
    (Inr [], [(Stderr, ''Error recognizing faces in '' @ p @ '': '' @ str_exn e)])"
proof -
  have "recognize_try w clf p tol = Inl e"
    using assms(2)
  proof (elim disjE conjE)
    assume a: "load_image_file w p = Inr img" "face_locations w img = Inr locs"
      "face_encodings w img (Some locs) = Inr encs" "i < length encs"
      "recognize_faces w clf tol (take i encs) [] = Inr found"
      "kneighbors w clf (encs ! i) = Inl e"
    from a(4) have "encs = take i encs @ encs ! i # drop (Suc i) encs"
      by (simp add: id_take_nth_drop)
    then have "recognize_faces w clf tol encs [] =
        recognize_faces w clf tol (encs ! i # drop (Suc i) encs) found"
      using a(5) recognize_faces_append [of w clf tol "take i encs" "encs ! i # drop (Suc i) encs" "[]"]
      by simp
    with a show ?thesis by (simp add: recognize_try_def)
  next
    assume a: "load_image_file w p = Inr img" "face_locations w img = Inr locs"
      "face_encodings w img (Some locs) = Inr encs" "i < length encs"
      "recognize_faces w clf tol (take i encs) [] = Inr found"
      "kneighbors w clf (encs ! i) = Inr d" "d \<le> tol" "predict w clf (encs ! i) = Inl e"
    from a(4) have "encs = take i encs @ encs ! i # drop (Suc i) encs"
      by (simp add: id_take_nth_drop)
    then have "recognize_faces w clf tol encs [] =
        recognize_faces w clf tol (encs ! i # drop (Suc i) encs) found"
      using a(5) recognize_faces_append [of w clf tol "take i encs" "encs ! i # drop (Suc i) encs" "[]"]
      by simp
    with a show ?thesis by (simp add: recognize_try_def)
  qed (simp_all add: recognize_try_def)
  with assms(1) show ?thesis by (simp add: recognize_def)
qed

text \<open>
  Claim C9. When every face is classified without an exception, the list returned by
  \<open>recognize\<close> is the list of the labels of the matching faces, in the order of the
  detected faces, each label kept at its first occurrence only.
\<close>

theorem recognize_first_occurrence_order:
  assumes "model self = Some clf"
    and "load_image_file w p = Inr img"
    and "face_locations w img = Inr locs"
    and "face_encodings w img (Some locs) = Inr encs"
    and "\<forall>enc\<in>set encs. kneighbors w clf enc = Inr (distance_of enc)"
    and "\<forall>enc\<in>set encs. distance_of enc \<le> tol \<longrightarrow> predict w clf enc = Inr (label_of enc)"
  shows "fst (recognize w self p tol) =
    Inr (first_occurrences (map label_of (filter (\<lambda>enc. distance_of enc \<le> tol) encs)))"
  using assms(1-4) recognize_faces_first_occurrences [OF assms(5) assms(6), of "[]"]
  by (simp add: recognize_def recognize_try_def)


lemma ex_c_image:
  "model ex_engine = Some ex_clf"
  "load_image_file ex_world ''photos/c.PNG'' = Inr (Image [3])"
  "face_locations ex_world (Image [3]) = Inr (replicate 4 (0, 10, 10, 0))"
  "face_encodings ex_world (Image [3]) (Some (replicate 4 (0, 10, 10, 0))) = Inr [[8], [3], [9], [4]]"
  by (simp_all add: ex_engine_def ex_world_def ex_load_image_file_def ex_face_locations_def
      ex_face_encodings_def ex_encodings_def eval_nat_numeral)

lemma ex_group_image:
  "load_image_file ex_world ''group.jpg'' = Inr (Image [4])"
  "face_locations ex_world (Image [4]) = Inr (replicate 2 (0, 10, 10, 0))"
  "face_encodings ex_world (Image [4]) (Some (replicate 2 (0, 10, 10, 0))) = Inr [[3], [6]]"
  by (simp_all add: ex_world_def ex_load_image_file_def ex_face_locations_def
      ex_face_encodings_def ex_encodings_def eval_nat_numeral)

lemma ex_tables:
  "kneighbors ex_world = ex_kneighbors" "predict ex_world = ex_predict"
  by (simp_all add: ex_world_def)

theorem recognize_boundary_is_match_witness:
  "kneighbors ex_world ex_clf [8] = Inr (6 / 10) \<and>
   (\<exists>people. fst (recognize ex_world ex_engine ''photos/c.PNG'' (6 / 10)) = Inr people \<and>
      ''bob'' \<in> set people)"
proof -
  define distance_of :: "encoding \<Rightarrow> real" where
    "distance_of = (\<lambda>enc. if enc = [3] then 2 / 10 else if enc = [4] then 9 / 10 else 6 / 10)"
  define label_of :: "encoding \<Rightarrow> string" where
    "label_of = (\<lambda>enc. if enc = [3] then ''alice'' else ''bob'')"
  have k: "\<forall>e\<in>set [[8], [3], [9], [4]]. kneighbors ex_world ex_clf e = Inr (distance_of e)"
    by (simp add: ex_tables ex_kneighbors_def distance_of_def)
  have l: "\<forall>e\<in>set [[8], [3], [9], [4]]. distance_of e \<le> 6 / 10 \<longrightarrow>
      predict ex_world ex_clf e = Inr (label_of e)"
    by (simp add: ex_tables ex_predict_def distance_of_def label_of_def)
  have m: "[8] \<in> set [[8], [3], [9], [4::real]]" by simp
  have b: "distance_of [8] = 6 / 10" by (simp add: distance_of_def)
  have "kneighbors ex_world ex_clf [8] = Inr (6 / 10)"
    by (simp add: ex_tables ex_kneighbors_def)
  with recognize_boundary_is_match [OF ex_c_image k l m b]
  show ?thesis by (simp add: label_of_def)
qed

theorem recognize_without_model_witness:
  "recognize ex_world \<lparr>model_path = ''none.pkl'', model = None\<rparr> ''photos/a.jpg'' (6 / 10) =
     (Inr [], [(Stderr, ''No trained model found! Please train the model first.'')]) \<and>
   ex_disk ''broken.pkl'' = Some (Unreadable (Exn ''invalid load key'')) \<and>
   (\<exists>engine out. FacialRecognitionEngine ex_disk ''broken.pkl'' = (Inr engine, out) \<and>
      recognize ex_world engine ''photos/a.jpg'' (6 / 10) =
        (Inr [], [(Stderr, ''No trained model found! Please train the model first.'')]))"
proof -
  have b: "ex_disk ''broken.pkl'' = Some (Unreadable (Exn ''invalid load key''))"
    by (simp add: ex_disk_def)
  from recognize_without_model [of "\<lparr>model_path = ''none.pkl'', model = None\<rparr>"
      ex_world "''photos/a.jpg''" "6 / 10" ex_disk "''broken.pkl''" "Exn ''invalid load key''"] b
  show ?thesis by simp
qed

theorem recognize_label_once_witness:
  "face_encodings ex_world (Image [3]) (Some (replicate 4 (0, 10, 10, 0))) =
     Inr [[8], [3], [9], [4]] \<and>
   kneighbors ex_world ex_clf [8] = Inr (6 / 10) \<and> predict ex_world ex_clf [8] = Inr ''bob'' \<and>
   kneighbors ex_world ex_clf [9] = Inr (6 / 10) \<and> predict ex_world ex_clf [9] = Inr ''bob'' \<and>
   fst (recognize ex_world ex_engine ''photos/c.PNG'' (6 / 10)) = Inr [''bob'', ''alice''] \<and>
   (\<exists>people. fst (recognize ex_world ex_engine ''photos/c.PNG'' (6 / 10)) = Inr people \<and>
      distinct people \<and> count_list people ''bob'' = 1)"
proof -
  define distance_of :: "encoding \<Rightarrow> real" where
    "distance_of = (\<lambda>enc. if enc = [3] then 2 / 10 else if enc = [4] then 9 / 10 else 6 / 10)"
  define label_of :: "encoding \<Rightarrow> string" where
    "label_of = (\<lambda>enc. if enc = [3] then ''alice'' else ''bob'')"
  have k: "\<forall>e\<in>set [[8], [3], [9], [4]]. kneighbors ex_world ex_clf e = Inr (distance_of e)"
    by (simp add: ex_tables ex_kneighbors_def distance_of_def)
  have l: "\<forall>e\<in>set [[8], [3], [9], [4]]. distance_of e \<le> 6 / 10 \<longrightarrow>
      predict ex_world ex_clf e = Inr (label_of e)"
    by (simp add: ex_tables ex_predict_def distance_of_def label_of_def)
  have m: "[9] \<in> set [[8], [3], [9], [4::real]]" "distance_of [9] \<le> 6 / 10"
    "label_of [9] = ''bob''"
    by (simp_all add: distance_of_def label_of_def)
  have t: "kneighbors ex_world ex_clf [8] = Inr (6 / 10)" "predict ex_world ex_clf [8] = Inr ''bob''"
    "kneighbors ex_world ex_clf [9] = Inr (6 / 10)" "predict ex_world ex_clf [9] = Inr ''bob''"
    by (simp_all add: ex_tables ex_kneighbors_def ex_predict_def)
  have r: "fst (recognize ex_world ex_engine ''photos/c.PNG'' (6 / 10)) = Inr [''bob'', ''alice'']"
    by code_simp
  from recognize_label_once [where w = ex_world and self = ex_engine
      and image_path = "''photos/c.PNG''" and tolerance = "6 / 10" and clf = ex_clf
      and img = "Image [3]" and locs = "replicate 4 (0, 10, 10, 0)"
      and encs = "[[8], [3], [9], [4]]" and distance_of = distance_of and label_of = label_of
      and enc = "[9]"]
  obtain people where
    p: "fst (recognize ex_world ex_engine ''photos/c.PNG'' (6 / 10)) = Inr people"
      "distinct people" "count_list people ''bob'' = 1"
    using ex_c_image k l m by auto
  with ex_c_image(4) t r show ?thesis by blast
qed

theorem recognize_exception_gives_empty_witness:
  "recognize_faces ex_world ex_clf (6 / 10) (take 1 [[3], [6]]) [] = Inr [''alice''] \<and>
   kneighbors ex_world ex_clf ([[3], [6]] ! 1) = Inl (Exn ''Input contains NaN'') \<and>
   recognize ex_world ex_engine ''group.jpg'' (6 / 10) =
     (Inr [], [(Stderr, ''Error recognizing faces in group.jpg: Input contains NaN'')])"
proof -
  have a: "recognize_faces ex_world ex_clf (6 / 10) (take 1 [[3], [6]]) [] = Inr [''alice'']"
    by (simp add: ex_tables ex_kneighbors_def ex_predict_def)
  have b: "kneighbors ex_world ex_clf ([[3], [6]] ! 1) = Inl (Exn ''Input contains NaN'')"
    by (simp add: ex_tables ex_kneighbors_def)
  have i: "(1::nat) < length [[3], [6::real]]" by simp
  from recognize_exception_gives_empty [of ex_engine ex_clf ex_world "''group.jpg''"
      "Exn ''Input contains NaN''" "Image [4]" "replicate 2 (0, 10, 10, 0)" "[[3], [6]]" 1
      "6 / 10" "[''alice'']"] ex_c_image(1) ex_group_image a b i
  show ?thesis by simp
qed

theorem recognize_first_occurrence_order_witness:
  "fst (recognize ex_world ex_engine ''photos/c.PNG'' (6 / 10)) =
     Inr (first_occurrences [''bob'', ''alice'', ''bob'']) \<and>
   first_occurrences [''bob'', ''alice'', ''bob''] = [''bob'', ''alice'']"
proof -
  define distance_of :: "encoding \<Rightarrow> real" where
    "distance_of = (\<lambda>enc. if enc = [3] then 2 / 10 else if enc = [4] then 9 / 10 else 6 / 10)"
  define label_of :: "encoding \<Rightarrow> string" where
    "label_of = (\<lambda>enc. if enc = [3] then ''alice'' else ''bob'')"
  have k: "\<forall>enc\<in>set [[8], [3], [9], [4]]. kneighbors ex_world ex_clf enc = Inr (distance_of enc)"
    by (simp add: ex_tables ex_kneighbors_def distance_of_def)
  have l: "\<forall>enc\<in>set [[8], [3], [9], [4]]. distance_of enc \<le> 6 / 10 \<longrightarrow>
      predict ex_world ex_clf enc = Inr (label_of enc)"
    by (simp add: ex_tables ex_predict_def distance_of_def label_of_def)
  from recognize_first_occurrence_order [OF ex_c_image k l]
  show ?thesis by (simp add: distance_of_def label_of_def)
qed

section \<open>Properties of the constructor\<close>

lemma load_model_returns: "\<exists>loaded. fst (load_model d self) = Inr loaded"
  by (auto simp: load_model_def split: sum.splits)

text \<open>
  Claim C10. Constructing an engine never raises, whatever is at the model path: the
  constructor returns an engine for that path after one load attempt. If nothing exists
  at the path the load is skipped and nothing is printed; if opening or deserialising
  fails the exception is caught and printed on stderr once; in both cases the engine has
  no model. If a pickled object is there, it becomes the model.
\<close>

theorem constructor_never_raises:
  "\<exists>self. fst (FacialRecognitionEngine d p) = Inr self \<and> model_path self = p \<and>
     (d p = None \<longrightarrow> model self = None \<and> snd (FacialRecognitionEngine d p) = []) \<and>
     (\<forall>e. d p = Some (Unreadable e) \<longrightarrow>
        model self = None \<and>
        snd (FacialRecognitionEngine d p) = [(Stderr, ''Error loading model: '' @ str_exn e)]) \<and>
     (\<forall>obj. d p = Some (Pickled obj) \<longrightarrow>
        model self = obj \<and> snd (FacialRecognitionEngine d p) = [])"
proof (cases "d p")
  case None
  then show ?thesis
    by (simp add: FacialRecognitionEngine_def load_model_def path_exists_def)
next
  case (Some st)
  then show ?thesis
    by (cases st)
      (simp_all add: FacialRecognitionEngine_def load_model_def path_exists_def
        open_rb_pickle_load_def)
qed

theorem constructor_never_raises_witness:
  "FacialRecognitionEngine ex_disk ''none.pkl'' =
     (Inr \<lparr>model_path = ''none.pkl'', model = None\<rparr>, []) \<and>
   FacialRecognitionEngine ex_disk ''broken.pkl'' =
     (Inr \<lparr>model_path = ''broken.pkl'', model = None\<rparr>,
      [(Stderr, ''Error loading model: invalid load key'')])"
proof -
  have n: "ex_disk ''none.pkl'' = None" by (simp add: ex_disk_def)
  have b: "ex_disk ''broken.pkl'' = Some (Unreadable (Exn ''invalid load key''))"
    by (simp add: ex_disk_def)
  from constructor_never_raises [of ex_disk "''none.pkl''"] n
  have 1: "FacialRecognitionEngine ex_disk ''none.pkl'' =
     (Inr \<lparr>model_path = ''none.pkl'', model = None\<rparr>, [])"
    by (cases "FacialRecognitionEngine ex_disk ''none.pkl''") auto
  from constructor_never_raises [of ex_disk "''broken.pkl''"] b
  have 2: "FacialRecognitionEngine ex_disk ''broken.pkl'' =
     (Inr \<lparr>model_path = ''broken.pkl'', model = None\<rparr>,
      [(Stderr, ''Error loading model: invalid load key'')])"
    by (cases "FacialRecognitionEngine ex_disk ''broken.pkl''") auto
  from 1 2 show ?thesis by simp
qed

section \<open>Properties of training\<close>

lemma train_images_skip:
  assumes "\<forall>f\<in>set files. is_image_path (join pdir f) \<longrightarrow>
             (\<forall>e r. train_encodings w (join pdir f) \<noteq> Inr (e # r))"
  shows "\<exists>out'. train_images w person pdir files (encs, names, out) = (encs, names, out')"
  using assms
proof (induction files arbitrary: out)
  case Nil
  then show ?case by simp
next
  case (Cons f files)
  then show ?case
    by (auto simp: Let_def split: sum.splits list.splits)
qed

lemma train_persons_skip:
  assumes "\<forall>person\<in>set persons. isdir w (join tdir person) \<longrightarrow>
             listdir w (join tdir person) = Inr (files_of person) \<and>
             (\<forall>f\<in>set (files_of person). is_image_path (join (join tdir person) f) \<longrightarrow>
                (\<forall>e r. train_encodings w (join (join tdir person) f) \<noteq> Inr (e # r)))"
  shows "\<exists>out'. train_persons w tdir persons (encs, names, out) = (Inr (encs, names), out')"
  using assms
proof (induction persons arbitrary: out)
  case Nil
  then show ?case by simp
next
  case (Cons person persons)
  show ?case
  proof (cases "isdir w (join tdir person)")
    case False
    with Cons show ?thesis by simp
  next
    case True
    with Cons.prems have l: "listdir w (join tdir person) = Inr (files_of person)"
      and n: "\<forall>f\<in>set (files_of person). is_image_path (join (join tdir person) f) \<longrightarrow>
                (\<forall>e r. train_encodings w (join (join tdir person) f) \<noteq> Inr (e # r))"
      by auto
    from train_images_skip [OF n] obtain out1 where
      "train_images w person (join tdir person) (files_of person) (encs, names, out) =
         (encs, names, out1)" by blast
    moreover from Cons.IH [of out1] Cons.prems obtain out2 where
      "train_persons w tdir persons (encs, names, out1) = (Inr (encs, names), out2)"
      by auto
    ultimately show ?thesis using True l by simp
  qed
qed

text \<open>
  Claim C5. When the training directory can be listed, every person directory can be
  listed, and no image file in them gives an embedding (it cannot be decoded or encoded,
  or no face is found), \<open>train\<close> returns 0, the engine is the one it was called with
  (its classifier is untouched) and the disk is unchanged (no model file is written or
  created); the last line printed is the failure message on stderr.
\<close>

theorem train_zero_embeddings:
  assumes "listdir w training_dir = Inr persons"
    and "\<forall>person\<in>set persons. isdir w (join training_dir person) \<longrightarrow>
           listdir w (join training_dir person) = Inr (files_of person) \<and>
           (\<forall>f\<in>set (files_of person). is_image_path (join (join training_dir person) f) \<longrightarrow>
              (\<forall>e r. train_encodings w (join (join training_dir person) f) \<noteq> Inr (e # r)))"
  shows "\<exists>out. train w d self training_dir =
           (Inr 0, self, d, out @ [(Stderr, ''No face encodings found! Training failed.'')])"
proof -
  from train_persons_skip [OF assms(2), of "[]" "[]" "[]"] obtain out where
    "train_persons w training_dir persons ([], [], []) = (Inr ([], []), out)" by blast
  with assms(1) show ?thesis by (simp add: train_def)
qed

lemma train_images_none:
  assumes "filter (\<lambda>f. is_image_path (join pdir f)) files = []"
  shows "train_images w person pdir files (encs, names, out) = (encs, names, out)"
  using assms by (induction files) (auto simp: Let_def split: if_splits)

lemma train_images_one:
  assumes "filter (\<lambda>f. is_image_path (join pdir f)) files = [f]"
    and "train_encodings w (join pdir f) = Inr (enc # others)"
  shows "\<exists>out'. train_images w person pdir files (encs, names, out) =
           (encs @ [enc], names @ [person], out')"
  using assms
proof (induction files)
  case Nil
  then show ?case by simp
next
  case (Cons g files)
  show ?case
  proof (cases "is_image_path (join pdir g)")
    case True
    with Cons.prems have "g = f" "filter (\<lambda>f. is_image_path (join pdir f)) files = []"
      by auto
    with True Cons.prems(2) show ?thesis
      by (simp add: train_images_none)
  next
    case False
    with Cons show ?thesis by simp
  qed
qed

lemma train_persons_one_each:
  assumes "\<forall>person\<in>set persons. isdir w (join tdir person) \<longrightarrow>
             listdir w (join tdir person) = Inr (files_of person) \<and>
             filter (\<lambda>f. is_image_path (join (join tdir person) f)) (files_of person) =
               [file_of person] \<and>
             train_encodings w (join (join tdir person) (file_of person)) =
               Inr (first_enc person # other_encs person)"
  shows "\<exists>out'. train_persons w tdir persons (encs, names, out) =
           (Inr (encs @ map first_enc (filter (\<lambda>n. isdir w (join tdir n)) persons),
                 names @ filter (\<lambda>n. isdir w (join tdir n)) persons), out')"
  using assms
proof (induction persons arbitrary: encs names out)
  case Nil
  then show ?case by simp
next
  case (Cons person persons)
  show ?case
  proof (cases "isdir w (join tdir person)")
    case False
    with Cons.IH [of encs names out] Cons.prems show ?thesis by simp
  next
    case True
    with Cons.prems have l: "listdir w (join tdir person) = Inr (files_of person)"
      and f: "filter (\<lambda>f. is_image_path (join (join tdir person) f)) (files_of person) =
               [file_of person]"
      and e: "train_encodings w (join (join tdir person) (file_of person)) =
               Inr (first_enc person # other_encs person)"
      by auto
    from train_images_one [OF f e] obtain out1 where
      "train_images w person (join tdir person) (files_of person) (encs, names, out) =
         (encs @ [first_enc person], names @ [person], out1)" by blast
    moreover from Cons.IH [of "encs @ [first_enc person]" "names @ [person]" out1] Cons.prems
    obtain out2 where
      "train_persons w tdir persons (encs @ [first_enc person], names @ [person], out1) =
         (Inr ((encs @ [first_enc person]) @
                 map first_enc (filter (\<lambda>n. isdir w (join tdir n)) persons),
               (names @ [person]) @ filter (\<lambda>n. isdir w (join tdir n)) persons), out2)"
      by auto
    ultimately show ?thesis using True l by simp
  qed
qed

text \<open>
  Claim C6. Let the training directory have the subdirectories \<open>subdirs\<close> (the entries
  that are directories, in listing order; there is at least one), each with exactly one
  image file, in which at least one face is found. If the model file can be opened for
  writing, \<open>train\<close> returns the number of subdirectories, the engine holds a classifier
  with \<open>n_neighbors = min 5 N\<close>, fitted with the first embedding of each image and the
  subdirectory names as labels, the same classifier is stored at the model path, and its
  label set is the set of subdirectory names.
\<close>

theorem train_one_face_per_person:
  assumes "listdir w training_dir = Inr entries"
    and "subdirs = filter (\<lambda>n. isdir w (join training_dir n)) entries"
    and "\<forall>person\<in>set subdirs.
           listdir w (join training_dir person) = Inr (files_of person) \<and>
           filter (\<lambda>f. is_image_path (join (join training_dir person) f)) (files_of person) =
             [file_of person] \<and>
           load_image_file w (join (join training_dir person) (file_of person)) =
             Inr (image_of person) \<and>
           face_encodings w (image_of person) None = Inr (first_enc person # other_encs person)"
    and "subdirs \<noteq> []"
    and "open_wb w (model_path self) = None"
    and "clf = \<lparr>n_neighbors = min 5 (length subdirs), fit_X = map first_enc subdirs,
                fit_y = subdirs\<rparr>"
  shows "\<exists>out. train w d self training_dir =
           (Inr (length subdirs), self\<lparr>model := Some clf\<rparr>,
            d(model_path self \<mapsto> Pickled (Some clf)), out) \<and>
         classes clf = set subdirs"
proof -
  have "\<forall>person\<in>set entries. isdir w (join training_dir person) \<longrightarrow>
             listdir w (join training_dir person) = Inr (files_of person) \<and>
             filter (\<lambda>f. is_image_path (join (join training_dir person) f)) (files_of person) =
               [file_of person] \<and>
             train_encodings w (join (join training_dir person) (file_of person)) =
               Inr (first_enc person # other_encs person)"
    using assms(2,3) by (auto simp: train_encodings_def)
  from train_persons_one_each [OF this, of "[]" "[]" "[]"] assms(2) obtain out where
    "train_persons w training_dir entries ([], [], []) =
       (Inr (map first_enc subdirs, subdirs), out)" by auto
  with assms(1,4,5,6) show ?thesis
    by (simp add: train_def save_model_def fit_def KNeighborsClassifier_def classes_def)
qed


theorem train_zero_embeddings_witness:
  "listdir ex_world ''nofaces'' = Inr [''carol''] \<and>
   (\<exists>out. train ex_world ex_disk ex_engine ''nofaces'' =
      (Inr 0, ex_engine, ex_disk,
       out @ [(Stderr, ''No face encodings found! Training failed.'')]))"
proof -
  have l: "listdir ex_world ''nofaces'' = Inr [''carol'']"
    by code_simp
  have j: "join ''nofaces'' ''carol'' = ''nofaces/carol''"
    "join ''nofaces/carol'' ''c1.jpg'' = ''nofaces/carol/c1.jpg''"
    "join ''nofaces/carol'' ''c2.png'' = ''nofaces/carol/c2.png''"
    by (simp_all add: join_def)
  have f: "listdir ex_world ''nofaces/carol'' = Inr [''c1.jpg'', ''c2.png'']"
    by code_simp
  have e1: "train_encodings ex_world ''nofaces/carol/c1.jpg'' =
      Inl (Exn ''cannot identify image file'')"
    by code_simp
  have e2: "train_encodings ex_world ''nofaces/carol/c2.png'' = Inr []"
    by code_simp
  have h: "\<forall>person\<in>set [''carol'']. isdir ex_world (join ''nofaces'' person) \<longrightarrow>
      listdir ex_world (join ''nofaces'' person) = Inr ((\<lambda>p. [''c1.jpg'', ''c2.png'']) person) \<and>
      (\<forall>f\<in>set ((\<lambda>p. [''c1.jpg'', ''c2.png'']) person).
          is_image_path (join (join ''nofaces'' person) f) \<longrightarrow>
          (\<forall>e r. train_encodings ex_world (join (join ''nofaces'' person) f) \<noteq> Inr (e # r)))"
    by (simp add: j f e1 e2)
  from train_zero_embeddings [OF l h, of ex_disk ex_engine] l show ?thesis by simp
qed

theorem train_one_face_per_person_witness:
  "filter (\<lambda>n. isdir ex_world (join ''faces'' n)) [''alice'', ''README.txt'', ''bob''] =
     [''alice'', ''bob''] \<and>
   face_encodings ex_world (Image [11]) None = Inr [[2], [7]] \<and>
   (\<exists>out. train ex_world ex_disk \<lparr>model_path = ''new.pkl'', model = None\<rparr> ''faces'' =
      (Inr 2, \<lparr>model_path = ''new.pkl'', model = Some ex_clf\<rparr>,
       ex_disk(''new.pkl'' \<mapsto> Pickled (Some ex_clf)), out)) \<and>
   classes ex_clf = {''alice'', ''bob''}"
proof -
  define files_of :: "string \<Rightarrow> string list" where
    "files_of = (\<lambda>p. if p = ''alice'' then [''a1.jpg''] else [''notes.txt'', ''b1.JPEG''])"
  define file_of :: "string \<Rightarrow> string" where
    "file_of = (\<lambda>p. if p = ''alice'' then ''a1.jpg'' else ''b1.JPEG'')"
  define image_of :: "string \<Rightarrow> image" where
    "image_of = (\<lambda>p. if p = ''alice'' then Image [10] else Image [11])"
  define first_enc :: "string \<Rightarrow> encoding" where
    "first_enc = (\<lambda>p. if p = ''alice'' then [1] else [2])"
  define other_encs :: "string \<Rightarrow> encoding list" where
    "other_encs = (\<lambda>p. if p = ''alice'' then [] else [[7]])"
  have l: "listdir ex_world ''faces'' = Inr [''alice'', ''README.txt'', ''bob'']"
    by code_simp
  have s: "[''alice'', ''bob''] =
      filter (\<lambda>n. isdir ex_world (join ''faces'' n)) [''alice'', ''README.txt'', ''bob'']"
    by code_simp
  have j: "join ''faces'' ''alice'' = ''faces/alice''" "join ''faces'' ''bob'' = ''faces/bob''"
    "join ''faces/alice'' ''a1.jpg'' = ''faces/alice/a1.jpg''"
    "join ''faces/bob'' ''b1.JPEG'' = ''faces/bob/b1.JPEG''"
    "join ''faces/bob'' ''notes.txt'' = ''faces/bob/notes.txt''"
    by (simp_all add: join_def)
  have d: "listdir ex_world ''faces/alice'' = Inr [''a1.jpg'']"
    "listdir ex_world ''faces/bob'' = Inr [''notes.txt'', ''b1.JPEG'']"
    by code_simp+
  have i: "is_image_path ''faces/alice/a1.jpg''" "is_image_path ''faces/bob/b1.JPEG''"
    "\<not> is_image_path ''faces/bob/notes.txt''"
    by code_simp+
  have m: "load_image_file ex_world ''faces/alice/a1.jpg'' = Inr (Image [10])"
    "load_image_file ex_world ''faces/bob/b1.JPEG'' = Inr (Image [11])"
    by code_simp+
  have e: "face_encodings ex_world (Image [10]) None = Inr [[1]]"
    "face_encodings ex_world (Image [11]) None = Inr [[2], [7]]"
    by code_simp+
  have h: "\<forall>person\<in>set [''alice'', ''bob''].
      listdir ex_world (join ''faces'' person) = Inr (files_of person) \<and>
      filter (\<lambda>f. is_image_path (join (join ''faces'' person) f)) (files_of person) =
        [file_of person] \<and>
      load_image_file ex_world (join (join ''faces'' person) (file_of person)) =
        Inr (image_of person) \<and>
      face_encodings ex_world (image_of person) None =
        Inr (first_enc person # other_encs person)"
    by (simp add: j d i m e files_of_def file_of_def image_of_def first_enc_def other_encs_def)
  have n: "[''alice'', ''bob''] \<noteq> []" by simp
  have o: "open_wb ex_world (model_path \<lparr>model_path = ''new.pkl'', model = None\<rparr>) = None"
    by (simp add: ex_world_def)
  have c: "ex_clf = \<lparr>n_neighbors = min 5 (length [''alice'', ''bob'']),
      fit_X = map first_enc [''alice'', ''bob''], fit_y = [''alice'', ''bob'']\<rparr>"
    by (simp add: ex_clf_def first_enc_def)
  from train_one_face_per_person [OF l s h n o c, of ex_disk]
  have t: "\<exists>out. train ex_world ex_disk \<lparr>model_path = ''new.pkl'', model = None\<rparr> ''faces'' =
      (Inr 2, \<lparr>model_path = ''new.pkl'', model = Some ex_clf\<rparr>,
       ex_disk(''new.pkl'' \<mapsto> Pickled (Some ex_clf)), out)"
    and k: "classes ex_clf = set [''alice'', ''bob'']"
    by (simp_all add: numeral_2_eq_2)
  from k have k': "classes ex_clf = {''alice'', ''bob''}"
    by (simp only: list.set)
  from s [symmetric] e(2) t k' show ?thesis
    by (intro conjI)
qed

section \<open>Properties of batch processing\<close>

lemma dict_set_fresh: "k \<notin> fst ` set rs \<Longrightarrow> dict_set k v rs = rs @ [(k, v)]"
  by (induction rs) auto

lemma process_files_step:
  "is_image_path (join dir f) \<Longrightarrow>
   \<exists>out'. process_files rec dir (f # fs) (rs, out) =
     process_files rec dir fs (dict_set f (entry_for rec (join dir f)) rs, out')"
  by (cases "rec (join dir f)") (auto simp: entry_for_def Let_def split: sum.splits)

lemma process_files_entries:
  assumes "distinct names" and "set names \<inter> fst ` set rs = {}"
  shows "fst (process_files rec dir names (rs, out)) =
    rs @ map (\<lambda>f. (f, entry_for rec (join dir f)))
           (filter (\<lambda>f. is_image_path (join dir f)) names)"
  using assms
proof (induction names arbitrary: rs out)
  case Nil
  then show ?case by simp
next
  case (Cons f fs)
  show ?case
  proof (cases "is_image_path (join dir f)")
    case False
    with Cons.IH [of rs out] Cons.prems show ?thesis by simp
  next
    case True
    from Cons.prems have fresh: "f \<notin> fst ` set rs" by auto
    from process_files_step [OF True] obtain out' where
      s: "process_files rec dir (f # fs) (rs, out) =
          process_files rec dir fs (dict_set f (entry_for rec (join dir f)) rs, out')"
      by blast
    have d: "dict_set f (entry_for rec (join dir f)) rs = rs @ [(f, entry_for rec (join dir f))]"
      using fresh by (rule dict_set_fresh)
    from Cons.prems have "distinct fs"
      and "set fs \<inter> fst ` set (rs @ [(f, entry_for rec (join dir f))]) = {}"
      by auto
    from Cons.IH [OF this, of out'] s d True show ?thesis by simp
  qed
qed

lemma entry_for_engine_try:
  "model self = Some clf \<Longrightarrow> recognize_try w clf p default_tolerance = Inl e \<Longrightarrow>
   entry_for (bound_recognize w self) p = People []"
  by (simp add: entry_for_def bound_recognize_def recognize_def)

lemma entry_for_engine_corrupt:
  "model self = Some clf \<Longrightarrow> load_image_file w p = Inl e \<Longrightarrow>
   entry_for (bound_recognize w self) p = People []"
  by (simp add: entry_for_def bound_recognize_def recognize_def recognize_try_def)

text \<open>
  Claim C1, as amended. For a directory that can be listed, \<open>process_directory\<close> stores
  exactly one entry per image file, in listing order, none omitted: the list that
  \<open>engine.recognize\<close> returned, or \<open>{"error": str(e)}\<close> when that call raised \<open>e\<close>; the
  result is this mapping, or its JSON text. With a \<open>FacialRecognitionEngine\<close> that holds a
  classifier, an exception raised inside the \<^verbatim>\<open>try\<close> of \<open>recognize\<close> does not reach
  \<open>process_directory\<close>: \<open>recognize\<close> catches it and returns the empty list, so the entry
  of an image that cannot be decoded is the empty list.
\<close>

theorem process_directory_entries:
  assumes "listdir w directory_path = Inr names"
    and "distinct names"
    and "rs = map (\<lambda>f. (f, entry_for engine_recognize (join directory_path f)))
                (filter (\<lambda>f. is_image_path (join directory_path f)) names)"
  shows "fst (process_directory w engine_recognize directory_path json_output) =
           Inr (if json_output then Json_text (json_dumps w (json_of_results rs))
                else Native rs) \<and>
         (model self = Some clf \<and> recognize_try w clf p default_tolerance = Inl e \<longrightarrow>
            entry_for (bound_recognize w self) p = People []) \<and>
         (model self = Some clf \<and> load_image_file w p = Inl e \<longrightarrow>
            entry_for (bound_recognize w self) p = People [])"
proof -
  from process_files_entries [OF assms(2), of "[]" engine_recognize directory_path "[]"] assms(3)
  have "fst (process_files engine_recognize directory_path names ([], [])) = rs"
    by simp
  with assms(1) have "fst (process_directory w engine_recognize directory_path json_output) =
      Inr (if json_output then Json_text (json_dumps w (json_of_results rs)) else Native rs)"
    by (cases "process_files engine_recognize directory_path names ([], [])")
      (simp add: process_directory_def)
  then show ?thesis
    using entry_for_engine_try [of self clf w p e] entry_for_engine_corrupt [of self clf w p e]
    by blast
qed

lemma ex_photos:
  "listdir ex_world ''photos'' = Inr [''a.jpg'', ''bad.jpg'', ''notes.txt'', ''c.PNG'']"
  "filter (\<lambda>f. is_image_path (join ''photos'' f)) [''a.jpg'', ''bad.jpg'', ''notes.txt'', ''c.PNG'']
     = [''a.jpg'', ''bad.jpg'', ''c.PNG'']"
  "join ''photos'' ''a.jpg'' = ''photos/a.jpg''"
  "join ''photos'' ''bad.jpg'' = ''photos/bad.jpg''"
  "join ''photos'' ''c.PNG'' = ''photos/c.PNG''"
  by code_simp+

theorem process_directory_entries_witness:
  "fst (process_directory ex_world
      (\<lambda>p. if p = ''photos/c.PNG'' then (Inl (Exn ''out of memory''), [])
            else bound_recognize ex_world ex_engine p) ''photos'' False) =
     Inr (Native [(''a.jpg'', People [''alice'']), (''bad.jpg'', People []),
                  (''c.PNG'', Error_entry ''out of memory'')]) \<and>
   model ex_engine = Some ex_clf \<and>
   load_image_file ex_world ''photos/bad.jpg'' = Inl (Exn ''cannot identify image file'') \<and>
   recognize_try ex_world ex_clf ''photos/bad.jpg'' default_tolerance =
     Inl (Exn ''cannot identify image file'') \<and>
   entry_for (bound_recognize ex_world ex_engine) ''photos/bad.jpg'' = People []"
proof -
  have d: "distinct [''a.jpg'', ''bad.jpg'', ''notes.txt'', ''c.PNG'']" by simp
  have b: "load_image_file ex_world ''photos/bad.jpg'' = Inl (Exn ''cannot identify image file'')"
    by code_simp
  then have t: "recognize_try ex_world ex_clf ''photos/bad.jpg'' default_tolerance =
      Inl (Exn ''cannot identify image file'')"
    by (simp add: recognize_try_def)
  have r: "[(''a.jpg'', People [''alice'']), (''bad.jpg'', People []),
            (''c.PNG'', Error_entry ''out of memory'')] =
      map (\<lambda>f. (f, entry_for
                 (\<lambda>p. if p = ''photos/c.PNG'' then (Inl (Exn ''out of memory''), [])
                       else bound_recognize ex_world ex_engine p) (join ''photos'' f)))
        (filter (\<lambda>f. is_image_path (join ''photos'' f))
           [''a.jpg'', ''bad.jpg'', ''notes.txt'', ''c.PNG''])"
    by code_simp
  from process_directory_entries [OF ex_photos(1) d r, of False ex_engine ex_clf
      "''photos/bad.jpg''" "Exn ''cannot identify image file''"] b t ex_c_image(1)
  show ?thesis by simp
qed

text \<open>
  Claim C1 as stated fails: in \<^verbatim>\<open>photos\<close> the image \<^verbatim>\<open>bad.jpg\<close> cannot be decoded and
  the two other images are good; the batch has three entries that are lists, and the one
  under \<^verbatim>\<open>bad.jpg\<close> is the empty list, not an error entry.
\<close>

theorem process_directory_corrupt_image_counterexample:
  "load_image_file ex_world ''photos/bad.jpg'' = Inl (Exn ''cannot identify image file'') \<and>
   fst (process_directory ex_world (bound_recognize ex_world ex_engine) ''photos'' False) =
     Inr (Native [(''a.jpg'', People [''alice'']), (''bad.jpg'', People []),
                  (''c.PNG'', People [''bob'', ''alice''])]) \<and>
   map_of [(''a.jpg'', People [''alice'']), (''bad.jpg'', People []),
           (''c.PNG'', People [''bob'', ''alice''])] ''bad.jpg'' = Some (People []) \<and>
   \<not> is_error_entry (People [])"
  by code_simp

section \<open>Properties of the command line\<close>

text \<open>
  Only the \<^verbatim>\<open>--recognize\<close> branch reads \<^verbatim>\<open>args.tolerance\<close>: in the other branches the
  run does not depend on it.
\<close>

lemma main_ignores_tolerance:
  assumes "\<not> truthy (arg_train a)" and "\<not> truthy (arg_recognize a)"
  shows "main w d (a\<lparr>arg_tolerance := t\<rparr>) = main w d a"
  using assms by (simp add: main_def split: prod.splits sum.splits)

text \<open>
  Claim C2 evaluated on the code: with \<^verbatim>\<open>--process-dir photos --tolerance 0.3\<close> the
  program prints the labels found with the default tolerance 0.6 (\<^verbatim>\<open>alice\<close> for
  \<^verbatim>\<open>a.jpg\<close>, whose face is at distance 0.5; \<^verbatim>\<open>bob\<close> and \<^verbatim>\<open>alice\<close> for \<^verbatim>\<open>c.PNG\<close>),
  whereas recognition with the tolerance of the command line gives no label for
  \<^verbatim>\<open>a.jpg\<close> and only \<^verbatim>\<open>alice\<close> for \<^verbatim>\<open>c.PNG\<close>.
\<close>

theorem main_process_dir_uses_default_tolerance:
  "fst (main ex_world ex_disk
      (default_args\<lparr>arg_process_dir := Some ''photos'', arg_tolerance := 3 / 10\<rparr>)) = Inr () \<and>
   snd (snd (main ex_world ex_disk
      (default_args\<lparr>arg_process_dir := Some ''photos'', arg_tolerance := 3 / 10\<rparr>))) =
     [(Stderr, ''Error recognizing faces in photos/bad.jpg: cannot identify image file''),
      (Stdout, json_dumps ex_world
         (JObj [(''a.jpg'', JList [JStr ''alice'']), (''bad.jpg'', JList []),
                (''c.PNG'', JList [JStr ''bob'', JStr ''alice''])]))] \<and>
   fst (recognize ex_world ex_engine ''photos/a.jpg'' (3 / 10)) = Inr [] \<and>
   fst (recognize ex_world ex_engine ''photos/c.PNG'' (3 / 10)) = Inr [''alice'']"
  by code_simp

end
